theory Spec2Isabelle
  imports Main "HOL-Library.Sublist"
begin

section \<open>Strings, numbers and the clock\<close>

text \<open>
  The drives router (\<^verbatim>\<open>src/unnamed/part_000\<close>) is an Express router over three Mongoose
  models. A JavaScript string is modelled as a \<^typ>\<open>string\<close>, every \<^typ>\<open>char\<close> standing
  for one UTF-16 code unit below 256, so that \<^term>\<open>length\<close> is the \<^verbatim>\<open>.length\<close> of the
  source. The parts of a ten-character date are
  integers far below \<open>2 ^ 53\<close>, which a double holds exactly: a parsed token is an
  \<^typ>\<open>int\<close>, and \<^verbatim>\<open>NaN\<close> is \<^term>\<open>None\<close>.
\<close>

text \<open>
  A seat count is a JavaScript number, that is a double. The model holds the doubles that
  are integers as \<^typ>\<open>int\<close>; \<^verbatim>\<open>x + 1\<close> and \<^verbatim>\<open>x - 1\<close> are the exact result rounded to the
  53 significant bits of a double, ties to the even significand. (The exponent range plays
  no part: one more or less than a finite double never rounds to infinity.)
\<close>

fun bitlen :: "nat \<Rightarrow> nat" where
  "bitlen n = (if n = 0 then 0 else Suc (bitlen (n div 2)))"

declare bitlen.simps [simp del]

definition round_nat :: "nat \<Rightarrow> nat" where
  "round_nat n =
     (let L = bitlen n in
      if L \<le> 53 then n
      else (let k = L - 53;
                q = n div 2 ^ k;
                r = n mod 2 ^ k;
                h = 2 ^ (k - 1);
                q' = (if r > h \<or> (r = h \<and> odd q) then q + 1 else q)
            in q' * 2 ^ k))"

definition to_double :: "int \<Rightarrow> int" where
  "to_double x = (if x < 0 then - int (round_nat (nat (- x))) else int (round_nat (nat x)))"

definition js_plus :: "int \<Rightarrow> int \<Rightarrow> int" where
  "js_plus x y = to_double (x + y)"

definition js_minus :: "int \<Rightarrow> int \<Rightarrow> int" where
  "js_minus x y = to_double (x - y)"

text \<open>\<^verbatim>\<open>String.prototype.split\<close> with a one-character separator: an empty string gives one
  empty token, and n separators give n + 1 tokens.\<close>

fun split_on :: "char \<Rightarrow> string \<Rightarrow> string list" where
  "split_on sep [] = [[]]"
| "split_on sep (c # cs) =
     (if c = sep then [] # split_on sep cs
      else (case split_on sep cs of
              [] \<Rightarrow> [[c]]
            | t # ts \<Rightarrow> (c # t) # ts))"

text \<open>\<^verbatim>\<open>parseInt(str)\<close> with no radix: leading white space is skipped, one sign is read, a
  \<^verbatim>\<open>0x\<close> prefix selects radix 16, then the longest run of digits of the radix is the value.
  No digit at all gives \<^verbatim>\<open>NaN\<close>.\<close>

definition isWhiteSpace :: "char \<Rightarrow> bool" where
  "isWhiteSpace c = ((of_char c :: nat) \<in> {9, 10, 11, 12, 13, 32, 160})"

definition digit_of :: "char \<Rightarrow> nat option" where
  "digit_of c =
     (let n = (of_char c :: nat) in
      if 48 \<le> n \<and> n \<le> 57 then Some (n - 48)
      else if 97 \<le> n \<and> n \<le> 122 then Some (n - 87)
      else if 65 \<le> n \<and> n \<le> 90 then Some (n - 55)
      else None)"

definition is_digit :: "nat \<Rightarrow> char \<Rightarrow> bool" where
  "is_digit R c = (case digit_of c of None \<Rightarrow> False | Some v \<Rightarrow> v < R)"

definition digits_value :: "nat \<Rightarrow> string \<Rightarrow> int" where
  "digits_value R Z =
     foldl (\<lambda>acc c. acc * int R + (case digit_of c of None \<Rightarrow> 0 | Some v \<Rightarrow> int v)) 0 Z"

definition parseInt :: "string \<Rightarrow> int option" where
  "parseInt str =
     (let S = dropWhile isWhiteSpace str;
          sign = (if S \<noteq> [] \<and> hd S = CHR ''-'' then - 1 else (1 :: int));
          S1 = (if S \<noteq> [] \<and> (hd S = CHR ''-'' \<or> hd S = CHR ''+'') then tl S else S);
          hex = (2 \<le> length S1 \<and> S1 ! 0 = CHR ''0'' \<and> (S1 ! 1 = CHR ''x'' \<or> S1 ! 1 = CHR ''X''));
          R = (if hex then 16 else 10);
          S2 = (if hex then drop 2 S1 else S1);
          Z = takeWhile (is_digit R) S2
      in if Z = [] then None else Some (sign * digits_value R Z))"

text \<open>Comparisons of a parsed number with a number: each is false on \<^verbatim>\<open>NaN\<close>.\<close>

definition js_lt :: "int option \<Rightarrow> int \<Rightarrow> bool" where
  "js_lt a b = (case a of None \<Rightarrow> False | Some x \<Rightarrow> x < b)"

definition js_le :: "int option \<Rightarrow> int \<Rightarrow> bool" where
  "js_le a b = (case a of None \<Rightarrow> False | Some x \<Rightarrow> x \<le> b)"

definition js_gt :: "int option \<Rightarrow> int \<Rightarrow> bool" where
  "js_gt a b = (case a of None \<Rightarrow> False | Some x \<Rightarrow> x > b)"

definition js_eq :: "int option \<Rightarrow> int \<Rightarrow> bool" where
  "js_eq a b = (case a of None \<Rightarrow> False | Some x \<Rightarrow> x = b)"

text \<open>What the validator reads from \<^verbatim>\<open>new Date()\<close>: the day of the month (1 to 31), the
  month as \<^verbatim>\<open>getMonth\<close> returns it (0 for January to 11 for December) and the year.\<close>

record js_date =
  getDate :: int
  getMonth :: int
  getFullYear :: int

section \<open>The leavingDate validator\<close>

text \<open>The custom validator of \<^verbatim>\<open>POST /\<close> and of \<^verbatim>\<open>PUT /:id\<close>. A thrown \<^verbatim>\<open>Error\<close> is
  \<^term>\<open>Inl\<close> of its message, \<^verbatim>\<open>return true\<close> is \<^term>\<open>Inr True\<close>. The second test is the
  condition of the source, disjunct by disjunct.\<close>

definition past_or_invalid :: "int option list \<Rightarrow> int \<Rightarrow> int \<Rightarrow> int \<Rightarrow> bool" where
  "past_or_invalid date d m y =
     ((js_lt (date ! 0) m \<and> js_eq (date ! 2) y) \<or>
      (js_le (date ! 0) m \<and> js_lt (date ! 1) d \<and> js_eq (date ! 2) y) \<or>
      js_lt (date ! 2) y \<or>
      js_gt (date ! 0) 12 \<or>
      js_gt (date ! 1) 31 \<or>
      js_le (date ! 1) 0)"

text \<open>In \<^verbatim>\<open>PUT /:id\<close> the format test is \<^verbatim>\<open>date.length !== 3 || leavingDate.length !== 10\<close>.\<close>

definition leavingDate_custom_update :: "js_date \<Rightarrow> string \<Rightarrow> string + bool" where
  "leavingDate_custom_update cur leavingDate =
     (let date = map parseInt (split_on CHR ''/'' leavingDate);
          d = getDate cur;
          m = getMonth cur;
          y = getFullYear cur
      in if length date \<noteq> 3 \<or> length leavingDate \<noteq> 10
         then Inl ''Invalid Date, Check Zeroes''
         else if past_or_invalid date d m y
         then Inl ''Please Enter a Current or Future Date''
         else Inr True)"

text \<open>In \<^verbatim>\<open>POST /\<close> the format test starts with \<^verbatim>\<open>!date\<close>; an array is truthy, so the
  disjunct is false for every input.\<close>

definition truthy_array :: "'a list \<Rightarrow> bool" where
  "truthy_array xs = True"

definition leavingDate_custom_create :: "js_date \<Rightarrow> string \<Rightarrow> string + bool" where
  "leavingDate_custom_create cur leavingDate =
     (let date = map parseInt (split_on CHR ''/'' leavingDate);
          d = getDate cur;
          m = getMonth cur;
          y = getFullYear cur
      in if \<not> truthy_array date \<or> length date \<noteq> 3 \<or> length leavingDate \<noteq> 10
         then Inl ''Invalid Date, Check Zeroes''
         else if past_or_invalid date d m y
         then Inl ''Please Enter a Current or Future Date''
         else Inr True)"

section \<open>Documents and the store\<close>

text \<open>
  The documents are those of the schema in \<^verbatim>\<open>src/models/Drive.js\<close>, which is what the
  collection holds and what a handler gets back from Mongoose. A user id is the string that
  the authentication middleware puts in \<^verbatim>\<open>req.user.id\<close>; the handlers compare it with
  \<^verbatim>\<open>toString()\<close> of the stored ids. The schema is strict: a field that a handler passes and
  the schema does not name is dropped. That is so for \<^verbatim>\<open>hike\<close> (the schema calls the
  destination \<^verbatim>\<open>resort\<close>, and no handler sets it) and for \<^verbatim>\<open>phone\<close> and \<^verbatim>\<open>exp\<close> of a group
  entry. A path of the schema that a document lacks is \<^term>\<open>None\<close>; an array path that is
  not given is the empty array. The \<^verbatim>\<open>date\<close> fields are the schema's \<^verbatim>\<open>default: Date.now\<close>.
\<close>

text \<open>Of a user the router reads the name, the phone number and the avatar, which
  \<^verbatim>\<open>src/routes/api/users.js\<close> stores at registration.\<close>

record user =
  u_name :: string
  u_phone :: string
  u_avatar :: string

text \<open>Modelled from the spec: the Profile model is not among the sources; it holds the
  attributes grade, type, experience and skills of one user, each of which may be unset.\<close>

record profile =
  p_grade :: "string option"
  p_type :: "string option"
  p_exp :: "string option"
  p_skills :: "string list option"

record member =
  g_user :: string
  g_name :: string
  g_avatar :: string
  g_grade :: "string option"
  g_type :: "string option"
  g_skills :: "string list"
  g_date :: int

record comment =
  c_id :: string
  c_user :: string
  c_text :: string
  c_name :: string
  c_avatar :: string
  c_date :: int

text \<open>\<^verbatim>\<open>leavingDate\<close> is a \<^verbatim>\<open>Date\<close>, held as its time value in milliseconds; it is \<^term>\<open>None\<close>
  when the document has no valid date.\<close>

record drive =
  d_user :: string
  d_leavingDate :: "int option"
  d_leavingTime :: string
  d_resort :: "string option"
  d_name :: string
  d_avatar :: string
  d_seats :: int
  d_description :: string
  d_group :: "member list"
  d_comments :: "comment list"
  d_date :: int

text \<open>What \<^verbatim>\<open>Drive.findById(id)\<close> does with a string depends on the collection: the string
  does not cast to an ObjectId (the query rejects with a CastError of kind ObjectId), it
  casts and no document has it (\<^verbatim>\<open>null\<close>), or it names a document. The queries by
  \<^verbatim>\<open>req.user.id\<close> get an id that the server itself put in the token: they give a document
  or \<^verbatim>\<open>null\<close>.\<close>

datatype 'a lookup = Malformed | Null | Doc 'a

record store =
  users :: "string \<Rightarrow> user option"
  profiles :: "string \<Rightarrow> profile option"
  drives :: "string \<Rightarrow> drive lookup"

datatype exn = CastError_ObjectId | CastError_Date | ValidationError | TypeError | ReferenceError

definition findById :: "(string \<Rightarrow> 'a lookup) \<Rightarrow> string \<Rightarrow> exn + 'a option" where
  "findById coll did =
     (case coll did of
        Malformed \<Rightarrow> Inl CastError_ObjectId
      | Null \<Rightarrow> Inr None
      | Doc d \<Rightarrow> Inr (Some d))"

text \<open>\<^verbatim>\<open>save()\<close> validates the document before it writes it. The paths that the schema marks
  \<^verbatim>\<open>required: true\<close> are \<^verbatim>\<open>leavingDate\<close>, \<^verbatim>\<open>leavingTime\<close>, \<^verbatim>\<open>resort\<close>, \<^verbatim>\<open>seats\<close>, \<^verbatim>\<open>description\<close>
  and the \<^verbatim>\<open>text\<close> of a comment; a required string must not be empty. \<^verbatim>\<open>seats\<close> is a
  number in every document of the model. A document that fails makes \<^verbatim>\<open>save()\<close> reject
  with a ValidationError and nothing is written.\<close>

definition validateSync :: "drive \<Rightarrow> bool" where
  "validateSync d =
     (d_leavingDate d \<noteq> None \<and>
      d_leavingTime d \<noteq> [] \<and>
      (case d_resort d of None \<Rightarrow> False | Some r \<Rightarrow> r \<noteq> []) \<and>
      d_description d \<noteq> [] \<and>
      list_all (\<lambda>c. c_text c \<noteq> []) (d_comments d))"

definition save :: "store \<Rightarrow> string \<Rightarrow> drive \<Rightarrow> exn + store" where
  "save s did d =
     (if validateSync d then Inr (s\<lparr>drives := (drives s)(did := Doc d)\<rparr>)
      else Inl ValidationError)"

section \<open>Requests and responses\<close>

record body =
  b_leavingDate :: string
  b_leavingTime :: string
  b_hike :: string
  b_seats :: int
  b_description :: string

text \<open>\<^term>\<open>b_seats\<close> is the integer written in the body; the handler gets it as a number,
  the double nearest to it.\<close>

definition body_seats :: "body \<Rightarrow> int" where
  "body_seats b = to_double (b_seats b)"

type_synonym verror = "string \<times> string"

datatype payload =
    Msg string
  | Send string
  | Errors "verror list"
  | DriveJson drive
  | GroupJson "member list"
  | CommentsJson "comment list"

type_synonym response = "nat \<times> payload"

text \<open>The three shapes of \<^verbatim>\<open>catch (err)\<close> in the router: \<^verbatim>\<open>GET /:id\<close> and the comment routes
  answer a CastError of kind ObjectId with 404, update, delete, join and leave answer it
  with 400, and create has no such test. Every other error is 500.\<close>

definition catch_404 :: "exn \<Rightarrow> response" where
  "catch_404 err =
     (if err = CastError_ObjectId then (404, Msg ''Drive not found'')
      else (500, Send ''Server Error''))"

definition catch_400 :: "exn \<Rightarrow> response" where
  "catch_400 err =
     (if err = CastError_ObjectId then (400, Msg ''Drive not found'')
      else (500, Send ''Server Error''))"

definition catch_500 :: "exn \<Rightarrow> response" where
  "catch_500 err = (500, Send ''Server Error'')"

text \<open>The validation chains. \<^verbatim>\<open>.not().isEmpty()\<close> fails on the empty string; \<^verbatim>\<open>.custom(f)\<close>
  fails when \<^verbatim>\<open>f\<close> throws. The body carries \<^verbatim>\<open>seats\<close> as a number, on which neither
  \<^verbatim>\<open>isEmpty\<close> nor \<^verbatim>\<open>isNumeric\<close> fails.\<close>

definition not_isEmpty :: "string \<Rightarrow> string \<Rightarrow> string \<Rightarrow> verror list" where
  "not_isEmpty param msg v = (if v = [] then [(param, msg)] else [])"

definition custom :: "string \<Rightarrow> (string \<Rightarrow> string + bool) \<Rightarrow> string \<Rightarrow> verror list" where
  "custom param f v = (case f v of Inl msg \<Rightarrow> [(param, msg)] | Inr ok \<Rightarrow> [])"

definition validate_create :: "js_date \<Rightarrow> body \<Rightarrow> verror list" where
  "validate_create cur b =
     not_isEmpty ''leavingDate'' ''Date is required'' (b_leavingDate b) @
     custom ''leavingDate'' (leavingDate_custom_create cur) (b_leavingDate b) @
     not_isEmpty ''leavingTime'' ''Time is required'' (b_leavingTime b) @
     not_isEmpty ''hike'' ''Hike is required'' (b_hike b) @
     not_isEmpty ''description'' ''Description is required'' (b_description b)"

definition validate_update :: "js_date \<Rightarrow> body \<Rightarrow> verror list" where
  "validate_update cur b =
     not_isEmpty ''leavingDate'' ''Date is required'' (b_leavingDate b) @
     custom ''leavingDate'' (leavingDate_custom_update cur) (b_leavingDate b) @
     not_isEmpty ''leavingTime'' ''Time is required'' (b_leavingTime b) @
     not_isEmpty ''hike'' ''hike is required'' (b_hike b) @
     not_isEmpty ''description'' ''Description is required'' (b_description b)"

text \<open>\<^verbatim>\<open>Array.prototype.indexOf\<close> (-1 when absent) and \<^verbatim>\<open>splice(i, 1)\<close>, whose negative
  start counts from the end of the array.\<close>

fun indexOf :: "'a list \<Rightarrow> 'a \<Rightarrow> int" where
  "indexOf [] x = - 1"
| "indexOf (y # ys) x =
     (if y = x then 0
      else (let i = indexOf ys x in if i < 0 then - 1 else i + 1))"

definition splice1 :: "int \<Rightarrow> 'a list \<Rightarrow> 'a list" where
  "splice1 i xs =
     (let n = int (length xs);
          start = (if i < 0 then max (n + i) 0 else min i n)
      in take (nat start) xs @ drop (nat start + 1) xs)"

section \<open>The route handlers\<close>

text \<open>
  Each handler takes the store and the request and returns the response and the store
  after it. The body of a \<^verbatim>\<open>try\<close> is a function into \<^typ>\<open>exn + 'a\<close>; the handler applies
  the route's \<^verbatim>\<open>catch\<close> to an \<^term>\<open>Inl\<close>, with the store as it was, since a handler writes
  to the collection in its last step only. \<^verbatim>\<open>res.json\<close> answers with status 200.

  Mongoose casts the \<^verbatim>\<open>leavingDate\<close> string of a body to a \<^verbatim>\<open>Date\<close> with \<^verbatim>\<open>new Date(string)\<close>.
  Which strings that are not in the ISO format the engine reads as a date is left to the
  engine by the language standard, so the handlers take the cast as a parameter
  \<^term>\<open>castDate\<close>: the time value of the date, or \<^term>\<open>None\<close> for an invalid date.
\<close>

subsection \<open>GET /:id\<close>

definition get_drive :: "store \<Rightarrow> string \<Rightarrow> response \<times> store" where
  "get_drive s did =
     (case findById (drives s) did of
        Inl err \<Rightarrow> (catch_404 err, s)
      | Inr None \<Rightarrow> ((404, Msg ''Drive not found''), s)
      | Inr (Some drive) \<Rightarrow> ((200, DriveJson drive), s))"

subsection \<open>POST /\<close>

text \<open>The document that \<^verbatim>\<open>new Drive({...})\<close> builds from the caller's account, the caller's
  profile and the body. The handler passes the destination as \<^verbatim>\<open>hike\<close>, which the schema
  drops, and never passes \<^verbatim>\<open>resort\<close>; \<^verbatim>\<open>phone\<close> and \<^verbatim>\<open>exp\<close> of the group entry are dropped
  as well.\<close>

definition new_Drive ::
  "(string \<Rightarrow> int option) \<Rightarrow> int \<Rightarrow> string \<Rightarrow> user \<Rightarrow> profile \<Rightarrow> body \<Rightarrow> drive" where
  "new_Drive castDate now uid user profile b =
     \<lparr>d_user = uid,
      d_leavingDate = castDate (b_leavingDate b),
      d_leavingTime = b_leavingTime b,
      d_resort = None,
      d_name = u_name user,
      d_avatar = u_avatar user,
      d_seats = body_seats b,
      d_description = b_description b,
      d_group =
        [\<lparr>g_user = uid,
          g_name = u_name user,
          g_avatar = u_avatar user,
          g_grade = p_grade profile,
          g_type = p_type profile,
          g_skills = (case p_skills profile of None \<Rightarrow> [] | Some skills \<Rightarrow> skills),
          g_date = now\<rparr>],
      d_comments = [],
      d_date = now\<rparr>"

text \<open>\<^verbatim>\<open>user.name\<close> and \<^verbatim>\<open>profile.grade\<close> are read from the results of the two queries with
  no test for \<^verbatim>\<open>null\<close>; \<^term>\<open>new_id\<close> is the \<^verbatim>\<open>_id\<close> that \<^verbatim>\<open>new Drive\<close> generates. The
  document goes through \<^verbatim>\<open>save()\<close>.\<close>

definition create_try ::
  "(string \<Rightarrow> int option) \<Rightarrow> int \<Rightarrow> string \<Rightarrow> store \<Rightarrow> string \<Rightarrow> body \<Rightarrow>
   exn + (response \<times> store)" where
  "create_try castDate now new_id s uid b =
     (case users s uid of
        None \<Rightarrow> Inl TypeError
      | Some user \<Rightarrow>
         (case profiles s uid of
            None \<Rightarrow> Inl TypeError
          | Some profile \<Rightarrow>
             (let newDrive = new_Drive castDate now uid user profile b
              in case save s new_id newDrive of
                   Inl err \<Rightarrow> Inl err
                 | Inr s' \<Rightarrow> Inr ((200, DriveJson newDrive), s'))))"

definition create_drive ::
  "(string \<Rightarrow> int option) \<Rightarrow> js_date \<Rightarrow> int \<Rightarrow> string \<Rightarrow> store \<Rightarrow> string \<Rightarrow> body \<Rightarrow>
   response \<times> store" where
  "create_drive castDate cur now new_id s uid b =
     (let errors = validate_create cur b in
      if errors \<noteq> [] then ((400, Errors errors), s)
      else (case create_try castDate now new_id s uid b of
              Inl err \<Rightarrow> (catch_500 err, s)
            | Inr r \<Rightarrow> r))"

subsection \<open>PUT /:id\<close>

text \<open>\<^verbatim>\<open>findOneAndUpdate\<close> casts the fields of \<^verbatim>\<open>$set\<close> to the schema and runs no validator:
  \<^verbatim>\<open>hike\<close> is not a path and is dropped, so the destination stays as it is, and a
  \<^verbatim>\<open>leavingDate\<close> that is not a date makes the query reject with a CastError, which is not
  of kind ObjectId.\<close>

definition update_try ::
  "(string \<Rightarrow> int option) \<Rightarrow> store \<Rightarrow> string \<Rightarrow> string \<Rightarrow> body \<Rightarrow>
   exn + (response \<times> store)" where
  "update_try castDate s uid did b =
     (let user = users s uid in
      case findById (drives s) did of
        Inl err \<Rightarrow> Inl err
      | Inr None \<Rightarrow> Inr ((404, Msg ''Drive not found''), s)
      | Inr (Some drive) \<Rightarrow>
         if d_user drive \<noteq> uid then Inr ((401, Msg ''User not Authorized''), s)
         else if body_seats b < 0 then Inr ((400, Msg ''Enter positive number of seats''), s)
         else (case user of
                 None \<Rightarrow> Inl TypeError
               | Some u \<Rightarrow>
                  (case castDate (b_leavingDate b) of
                     None \<Rightarrow> Inl CastError_Date
                   | Some leavingDate \<Rightarrow>
                      (let drive' =
                         drive\<lparr>d_user := uid,
                               d_avatar := u_avatar u,
                               d_leavingDate := Some leavingDate,
                               d_leavingTime := b_leavingTime b,
                               d_seats := body_seats b,
                               d_description := b_description b\<rparr>
                       in Inr ((200, DriveJson drive'),
                               s\<lparr>drives := (drives s)(did := Doc drive')\<rparr>)))))"

definition update_drive ::
  "(string \<Rightarrow> int option) \<Rightarrow> js_date \<Rightarrow> store \<Rightarrow> string \<Rightarrow> string \<Rightarrow> body \<Rightarrow>
   response \<times> store" where
  "update_drive castDate cur s uid did b =
     (let errors = validate_update cur b in
      if errors \<noteq> [] then ((400, Errors errors), s)
      else (case update_try castDate s uid did b of
              Inl err \<Rightarrow> (catch_400 err, s)
            | Inr r \<Rightarrow> r))"

subsection \<open>DELETE /:id\<close>

definition delete_try :: "store \<Rightarrow> string \<Rightarrow> string \<Rightarrow> exn + (response \<times> store)" where
  "delete_try s uid did =
     (case findById (drives s) did of
        Inl err \<Rightarrow> Inl err
      | Inr None \<Rightarrow> Inr ((404, Msg ''Drive not found''), s)
      | Inr (Some drive) \<Rightarrow>
         if d_user drive \<noteq> uid then Inr ((401, Msg ''User not authorized''), s)
         else Inr ((200, Msg ''Drive removed''), s\<lparr>drives := (drives s)(did := Null)\<rparr>))"

definition delete_drive :: "store \<Rightarrow> string \<Rightarrow> string \<Rightarrow> response \<times> store" where
  "delete_drive s uid did =
     (case delete_try s uid did of
        Inl err \<Rightarrow> (catch_400 err, s)
      | Inr r \<Rightarrow> r)"

subsection \<open>PUT /join/:id\<close>

text \<open>A string field of the profile is copied when it is truthy, that is set and not empty;
  an array is truthy whenever it is set.\<close>

definition truthy_string :: "string option \<Rightarrow> string option" where
  "truthy_string v = (case v of None \<Rightarrow> None | Some x \<Rightarrow> if x = [] then None else Some x)"

text \<open>The three queries come first. The test for an earlier join reads \<^verbatim>\<open>user.id\<close> once
  for every entry of the group, so it throws on a non-empty group when the user query gave
  \<^verbatim>\<open>null\<close>; \<^verbatim>\<open>joinFields.user = user.id\<close> throws then in any case. \<^verbatim>\<open>unshift\<close> casts
  \<^verbatim>\<open>joinFields\<close> to the group entry of the schema: \<^verbatim>\<open>phone\<close> and \<^verbatim>\<open>exp\<close> are dropped.\<close>

definition join_try ::
  "int \<Rightarrow> store \<Rightarrow> string \<Rightarrow> string \<Rightarrow> exn + (response \<times> store)" where
  "join_try now s uid did =
     (case findById (drives s) did of
        Inl err \<Rightarrow> Inl err
      | Inr found \<Rightarrow>
         (let user = users s uid;
              profile = profiles s uid
          in case found of
               None \<Rightarrow> Inr ((404, Msg ''Drive not found''), s)
             | Some drive \<Rightarrow>
                if d_group drive \<noteq> [] \<and> user = None then Inl TypeError
                else if length (filter (\<lambda>join. g_user join = uid) (d_group drive)) > 0
                then Inr ((400, Msg ''Drive already joined''), s)
                else if d_seats drive < 1 then Inr ((400, Msg ''Drive full''), s)
                else (case user of
                        None \<Rightarrow> Inl TypeError
                      | Some u \<Rightarrow>
                         (case profile of
                            None \<Rightarrow> Inr ((400, Msg ''You need a profile to join drives''), s)
                          | Some p \<Rightarrow>
                             (let joinFields =
                                \<lparr>g_user = uid,
                                 g_name = u_name u,
                                 g_avatar = u_avatar u,
                                 g_grade = truthy_string (p_grade p),
                                 g_type = truthy_string (p_type p),
                                 g_skills = (case p_skills p of None \<Rightarrow> [] | Some skills \<Rightarrow> skills),
                                 g_date = now\<rparr>;
                                drive' =
                                  drive\<lparr>d_group := joinFields # d_group drive,
                                        d_seats := js_minus (d_seats drive) 1\<rparr>
                              in case save s did drive' of
                                   Inl err \<Rightarrow> Inl err
                                 | Inr s' \<Rightarrow> Inr ((200, GroupJson (d_group drive')), s'))))))"

definition join_drive :: "int \<Rightarrow> store \<Rightarrow> string \<Rightarrow> string \<Rightarrow> response \<times> store" where
  "join_drive now s uid did =
     (case join_try now s uid did of
        Inl err \<Rightarrow> (catch_400 err, s)
      | Inr r \<Rightarrow> r)"

subsection \<open>PUT /leave/:id\<close>

definition leave_try :: "store \<Rightarrow> string \<Rightarrow> string \<Rightarrow> exn + (response \<times> store)" where
  "leave_try s uid did =
     (case findById (drives s) did of
        Inl err \<Rightarrow> Inl err
      | Inr None \<Rightarrow> Inr ((404, Msg ''Drive not found''), s)
      | Inr (Some drive) \<Rightarrow>
         if length (filter (\<lambda>join. g_user join = uid) (d_group drive)) = 0
         then Inr ((400, Msg ''Drive not joined''), s)
         else (let removeIndex = indexOf (map g_user (d_group drive)) uid;
                   drive' =
                     drive\<lparr>d_group := splice1 removeIndex (d_group drive),
                           d_seats := js_plus (d_seats drive) 1\<rparr>
               in case save s did drive' of
                    Inl err \<Rightarrow> Inl err
                  | Inr s' \<Rightarrow> Inr ((200, GroupJson (d_group drive')), s')))"

definition leave_drive :: "store \<Rightarrow> string \<Rightarrow> string \<Rightarrow> response \<times> store" where
  "leave_drive s uid did =
     (case leave_try s uid did of
        Inl err \<Rightarrow> (catch_400 err, s)
      | Inr r \<Rightarrow> r)"

subsection \<open>POST /comment/:id\<close>

text \<open>The handler builds the comment with \<^verbatim>\<open>new Post({text, name, avatar, user})\<close>. The
  module requires express, express-validator, the auth middleware and the models User,
  Profile and Drive; it neither requires nor declares \<^verbatim>\<open>Post\<close>, so what the identifier is
  bound to is decided outside the sources (a model file of the repository can make it a
  global, as \<^verbatim>\<open>src/models/Drive.js\<close> does with \<^verbatim>\<open>drive\<close>). The handler therefore takes the
  binding as a parameter: \<^term>\<open>Some ctor\<close> is a constructor of documents from the four
  fields, and \<^term>\<open>None\<close> is no binding, where evaluating \<^verbatim>\<open>Post\<close> throws a ReferenceError
  before any argument is evaluated.\<close>

type_synonym post_ctor = "string \<Rightarrow> string \<Rightarrow> string \<Rightarrow> string \<Rightarrow> comment"

definition add_comment_try ::
  "post_ctor option \<Rightarrow> store \<Rightarrow> string \<Rightarrow> string \<Rightarrow> string \<Rightarrow> exn + (response \<times> store)" where
  "add_comment_try Post s uid did text =
     (let user = users s uid in
      case findById (drives s) did of
        Inl err \<Rightarrow> Inl err
      | Inr found \<Rightarrow>
         (case Post of
            None \<Rightarrow> Inl ReferenceError
          | Some ctor \<Rightarrow>
             (case user of
                None \<Rightarrow> Inl TypeError
              | Some u \<Rightarrow>
                 (let newComment = ctor text (u_name u) (u_avatar u) uid in
                  case found of
                    None \<Rightarrow> Inl TypeError
                  | Some drive \<Rightarrow>
                     (let drive' = drive\<lparr>d_comments := newComment # d_comments drive\<rparr>
                      in case save s did drive' of
                           Inl err \<Rightarrow> Inl err
                         | Inr s' \<Rightarrow> Inr ((200, CommentsJson (d_comments drive')), s'))))))"

definition add_comment ::
  "post_ctor option \<Rightarrow> store \<Rightarrow> string \<Rightarrow> string \<Rightarrow> string \<Rightarrow> response \<times> store" where
  "add_comment Post s uid did text =
     (let errors = not_isEmpty ''text'' ''Text is required'' text in
      if errors \<noteq> [] then ((400, Errors errors), s)
      else (case add_comment_try Post s uid did text of
              Inl err \<Rightarrow> (catch_404 err, s)
            | Inr r \<Rightarrow> r))"

text \<open>Modelled from the spec: \<^verbatim>\<open>Post\<close> is not among the sources. The spec has add-comment
  prepend \<open>{text, caller id, caller name, caller avatar, timestamp}\<close>: the constructor
  builds a document of the four fields it is given, with the \<^verbatim>\<open>_id\<close> it generates, and
  the comment of the schema adds the time (\<^verbatim>\<open>default: Date.now\<close>).\<close>

definition spec_Post :: "string \<Rightarrow> int \<Rightarrow> post_ctor" where
  "spec_Post new_id now text name avatar user =
     \<lparr>c_id = new_id, c_user = user, c_text = text, c_name = name, c_avatar = avatar,
      c_date = now\<rparr>"

subsection \<open>DELETE /comment/:id/:comment_id\<close>

text \<open>\<^verbatim>\<open>drive.comments\<close> is read with no test for \<^verbatim>\<open>null\<close>. The comment is found by its id;
  the index to remove is the index of the caller's id among the authors.\<close>

definition remove_comment_try ::
  "store \<Rightarrow> string \<Rightarrow> string \<Rightarrow> string \<Rightarrow> exn + (response \<times> store)" where
  "remove_comment_try s uid did comment_id =
     (case findById (drives s) did of
        Inl err \<Rightarrow> Inl err
      | Inr None \<Rightarrow> Inl TypeError
      | Inr (Some drive) \<Rightarrow>
         (case find (\<lambda>comment. c_id comment = comment_id) (d_comments drive) of
            None \<Rightarrow> Inr ((404, Msg ''Comment does not exist''), s)
          | Some comment \<Rightarrow>
             if c_user comment \<noteq> uid then Inr ((401, Msg ''User not authorized''), s)
             else (let removeIndex = indexOf (map c_user (d_comments drive)) uid;
                       drive' = drive\<lparr>d_comments := splice1 removeIndex (d_comments drive)\<rparr>
                   in case save s did drive' of
                        Inl err \<Rightarrow> Inl err
                      | Inr s' \<Rightarrow> Inr ((200, CommentsJson (d_comments drive')), s'))))"

definition remove_comment ::
  "store \<Rightarrow> string \<Rightarrow> string \<Rightarrow> string \<Rightarrow> response \<times> store" where
  "remove_comment s uid did comment_id =
     (case remove_comment_try s uid did comment_id of
        Inl err \<Rightarrow> (catch_404 err, s)
      | Inr r \<Rightarrow> r)"

section \<open>The router as one transition function\<close>




definition status_of :: "response \<times> store \<Rightarrow> nat" where
  "status_of r = fst (fst r)"


text \<open>A run of joins and leaves on one drive, each by its own caller (a join also has its
  time). The run is \<^term>\<open>None\<close> as soon as one request is answered with a status other than
  200.\<close>

datatype member_op = Join string int | Leave string

fun run_ops :: "string \<Rightarrow> member_op list \<Rightarrow> store \<Rightarrow> store option" where
  "run_ops did [] s = Some s"
| "run_ops did (Join uid now # ops) s =
     (let r = join_drive now s uid did
      in if status_of r = 200 then run_ops did ops (snd r) else None)"
| "run_ops did (Leave uid # ops) s =
     (let r = leave_drive s uid did
      in if status_of r = 200 then run_ops did ops (snd r) else None)"

fun is_join :: "member_op \<Rightarrow> bool" where
  "is_join (Join uid now) = True"
| "is_join (Leave uid) = False"

definition joins :: "member_op list \<Rightarrow> nat" where
  "joins ops = length (filter is_join ops)"

definition leaves :: "member_op list \<Rightarrow> nat" where
  "leaves ops = length (filter (\<lambda>op. \<not> is_join op) ops)"



section \<open>Sample data\<close>

definition june15 :: js_date where
  "june15 = \<lparr>getDate = 15, getMonth = 5, getFullYear = 2025\<rparr>"

text \<open>A cast that knows one date: \<^verbatim>\<open>new Date("08/09/2025")\<close> is 9 August 2025 (here at
  midnight UTC).\<close>

definition summer_dates :: "string \<Rightarrow> int option" where
  "summer_dates str = (if str = ''08/09/2025'' then Some 1754697600000 else None)"

definition alice :: user where
  "alice = \<lparr>u_name = ''Alice'', u_phone = ''2065550100'', u_avatar = ''//gravatar/a''\<rparr>"

definition bob :: user where
  "bob = \<lparr>u_name = ''Bob'', u_phone = ''2065550101'', u_avatar = ''//gravatar/b''\<rparr>"

definition carol :: user where
  "carol = \<lparr>u_name = ''Carol'', u_phone = ''2065550102'', u_avatar = ''//gravatar/c''\<rparr>"

definition hiker :: profile where
  "hiker = \<lparr>p_grade = Some ''Senior'', p_type = Some ''Driver'', p_exp = None,
            p_skills = Some [''Navigation'']\<rparr>"

definition alice_entry :: member where
  "alice_entry =
     \<lparr>g_user = ''u1'', g_name = ''Alice'', g_avatar = ''//gravatar/a'',
      g_grade = Some ''Senior'', g_type = Some ''Driver'', g_skills = [''Navigation''],
      g_date = 1000\<rparr>"

definition first_comment :: comment where
  "first_comment =
     \<lparr>c_id = ''c1'', c_user = ''u1'', c_text = ''Leaving at the north lot'',
      c_name = ''Alice'', c_avatar = ''//gravatar/a'', c_date = 1100\<rparr>"

definition second_comment :: comment where
  "second_comment =
     \<lparr>c_id = ''c2'', c_user = ''u1'', c_text = ''Bring microspikes'',
      c_name = ''Alice'', c_avatar = ''//gravatar/a'', c_date = 1200\<rparr>"

definition trip :: drive where
  "trip =
     \<lparr>d_user = ''u1'', d_leavingDate = Some 1751587200000, d_leavingTime = ''6:30 AM'',
      d_resort = Some ''Mailbox Peak'', d_name = ''Alice'', d_avatar = ''//gravatar/a'',
      d_seats = 2, d_description = ''Early start'', d_group = [alice_entry],
      d_comments = [second_comment, first_comment], d_date = 1000\<rparr>"

text \<open>Alice (\<^verbatim>\<open>u1\<close>), Bob (\<^verbatim>\<open>u2\<close>) and Carol (\<^verbatim>\<open>u3\<close>) have accounts; Bob has no profile.
  The collection holds Alice's drive \<^verbatim>\<open>d1\<close>, the ids \<^verbatim>\<open>d2\<close> and \<^verbatim>\<open>d3\<close> name no document
  and every other string is not an ObjectId.\<close>

definition club :: store where
  "club =
     \<lparr>users = (\<lambda>x. None)(''u1'' := Some alice, ''u2'' := Some bob, ''u3'' := Some carol),
      profiles = (\<lambda>x. None)(''u1'' := Some hiker, ''u3'' := Some hiker),
      drives = (\<lambda>x. Malformed)(''d1'' := Doc trip, ''d2'' := Null, ''d3'' := Null)\<rparr>"

text \<open>The same club when the drive \<^verbatim>\<open>d1\<close> has no seat left, and when its seat count is
  \<open>2 ^ 53\<close>.\<close>

definition full_club :: store where
  "full_club = club\<lparr>drives := (drives club)(''d1'' := Doc (trip\<lparr>d_seats := 0\<rparr>))\<rparr>"

definition bus_club :: store where
  "bus_club =
     club\<lparr>drives := (drives club)(''d1'' := Doc (trip\<lparr>d_seats := 9007199254740992\<rparr>))\<rparr>"


definition new_trip :: body where
  "new_trip =
     \<lparr>b_leavingDate = ''08/09/2025'', b_leavingTime = ''7:00 AM'', b_hike = ''Mount Si'',
      b_seats = 3, b_description = ''Meet at the trailhead''\<rparr>"

text \<open>Carol joins a drive, leaves it and joins again; and Carol asks twice to join Alice's
  drive.\<close>

definition weekend :: "member_op list" where
  "weekend = [Join ''u3'' 2100, Leave ''u3'', Join ''u3'' 2200]"


section \<open>Arrays\<close>

lemma indexOf_bounds: "x \<in> set xs \<Longrightarrow> 0 \<le> indexOf xs x \<and> indexOf xs x < int (length xs)"
  by (induction xs) (auto simp: Let_def)

lemma indexOf_absent: "x \<notin> set xs \<Longrightarrow> indexOf xs x = - 1"
  by (induction xs) (auto simp: Let_def)

lemma splice1_in_range:
  "0 \<le> i \<Longrightarrow> i < int (length xs) \<Longrightarrow> splice1 i xs = take (nat i) xs @ drop (Suc (nat i)) xs"
  by (simp add: splice1_def Let_def)

lemma length_splice1:
  "0 \<le> i \<Longrightarrow> i < int (length xs) \<Longrightarrow> length (splice1 i xs) = length xs - 1"
  by (simp add: splice1_in_range)

lemma length_splice1_le: "length (splice1 i xs) \<le> length xs"
  by (simp add: splice1_def Let_def)

lemma set_splice1: "set (splice1 i xs) \<subseteq> set xs"
  by (auto simp: splice1_def Let_def dest: in_set_takeD in_set_dropD)




lemma joined_iff: "(length (filter (\<lambda>j. f j = uid) xs) > 0) = (uid \<in> set (map f xs))"
  by (induction xs) auto

lemma not_joined_iff: "(length (filter (\<lambda>j. f j = uid) xs) = 0) = (uid \<notin> set (map f xs))"
  using joined_iff[of f uid xs] by (metis neq0_conv)

section \<open>Sums of seat counts\<close>

lemma bitlen_0: "bitlen 0 = 0"
  by (simp add: bitlen.simps[of 0])

lemma bitlen_1: "bitlen (Suc 0) = Suc 0"
  by (simp add: bitlen.simps[of "Suc 0"] bitlen_0)

lemma bitlen_le: "n < 2 ^ k \<Longrightarrow> bitlen n \<le> k"
proof (induction k arbitrary: n)
  case 0
  then show ?case by (simp add: bitlen_0)
next
  case (Suc k)
  show ?case
  proof (cases "n = 0")
    case True
    then show ?thesis by (simp add: bitlen_0)
  next
    case False
    from Suc.prems have "n div 2 < 2 ^ k" by simp
    from Suc.IH[OF this] False show ?thesis by (simp add: bitlen.simps[of n])
  qed
qed

lemma bitlen_eq: "2 ^ k \<le> n \<Longrightarrow> n < 2 ^ Suc k \<Longrightarrow> bitlen n = Suc k"
proof (induction k arbitrary: n)
  case 0
  then have "n = 1" by simp
  then show ?case by (simp add: bitlen_1)
next
  case (Suc k)
  from Suc.prems have pos: "n \<noteq> 0" by auto
  from Suc.prems have "2 ^ k \<le> n div 2" "n div 2 < 2 ^ Suc k" by auto
  from Suc.IH[OF this] pos show ?case by (simp add: bitlen.simps[of n])
qed

lemma round_nat_small: "n < 2 ^ 53 \<Longrightarrow> round_nat n = n"
  using bitlen_le[of n 53] by (simp add: round_nat_def)

lemma round_nat_53: "round_nat 9007199254740992 = 9007199254740992"
proof -
  have "bitlen 9007199254740992 = Suc 53"
    by (rule bitlen_eq) simp_all
  then show ?thesis by (simp add: round_nat_def Let_def)
qed

lemma round_nat_53_1: "round_nat 9007199254740993 = 9007199254740992"
proof -
  have "bitlen 9007199254740993 = Suc 53"
    by (rule bitlen_eq) simp_all
  then show ?thesis by (simp add: round_nat_def Let_def)
qed

lemma to_double_exact: "\<bar>x\<bar> \<le> 9007199254740992 \<Longrightarrow> to_double x = x"
proof -
  assume a: "\<bar>x\<bar> \<le> 9007199254740992"
  have r: "round_nat (nat \<bar>x\<bar>) = nat \<bar>x\<bar>"
  proof (cases "\<bar>x\<bar> = 9007199254740992")
    case True
    then show ?thesis by (simp add: round_nat_53)
  next
    case False
    with a have "nat \<bar>x\<bar> < 2 ^ 53" by simp
    then show ?thesis by (rule round_nat_small)
  qed
  show ?thesis
  proof (cases "x < 0")
    case True
    with r show ?thesis by (simp add: to_double_def abs_if)
  next
    case False
    with r show ?thesis by (simp add: to_double_def abs_if)
  qed
qed

lemma to_double_53_1: "to_double 9007199254740993 = 9007199254740992"
  by (simp add: to_double_def round_nat_53_1)

section \<open>What each handler does to the store\<close>

lemmas handler_defs =
  findById_def save_def catch_400_def catch_404_def catch_500_def status_of_def



lemma join_drive_cases:
  "snd (join_drive now s uid did) = s \<and> status_of (join_drive now s uid did) \<noteq> 200 \<or>
   (\<exists>d entry. drives s did = Doc d \<and> uid \<notin> set (map g_user (d_group d)) \<and>
      1 \<le> d_seats d \<and> g_user entry = uid \<and>
      join_drive now s uid did =
        ((200, GroupJson (entry # d_group d)),
         s\<lparr>drives := (drives s)(did :=
              Doc (d\<lparr>d_group := entry # d_group d, d_seats := js_minus (d_seats d) 1\<rparr>))\<rparr>))"
  unfolding join_drive_def join_try_def handler_defs joined_iff Let_def
  by (auto split: lookup.splits option.splits)

lemma leave_drive_cases:
  "snd (leave_drive s uid did) = s \<and> status_of (leave_drive s uid did) \<noteq> 200 \<or>
   (\<exists>d. drives s did = Doc d \<and> uid \<in> set (map g_user (d_group d)) \<and>
      leave_drive s uid did =
        ((200, GroupJson (splice1 (indexOf (map g_user (d_group d)) uid) (d_group d))),
         s\<lparr>drives := (drives s)(did :=
              Doc (d\<lparr>d_group := splice1 (indexOf (map g_user (d_group d)) uid) (d_group d),
                     d_seats := js_plus (d_seats d) 1\<rparr>))\<rparr>))"
  unfolding leave_drive_def leave_try_def handler_defs not_joined_iff Let_def
  by (auto split: lookup.splits option.splits)

text \<open>The length of the group after a run, and the seats after a run that stays within
  the integers a double holds exactly.\<close>

lemma run_ops_group:
  "drives s did = Doc d \<Longrightarrow> run_ops did ops s = Some s' \<Longrightarrow>
   \<exists>d'. drives s' did = Doc d' \<and>
        int (length (d_group d')) =
          int (length (d_group d)) + int (joins ops) - int (leaves ops)"
proof (induction ops arbitrary: s d)
  case Nil
  then show ?case by (simp add: joins_def leaves_def)
next
  case (Cons op ops)
  show ?case
  proof (cases op)
    case (Join uid now)
    define s1 where "s1 = snd (join_drive now s uid did)"
    from Cons.prems Join have st: "status_of (join_drive now s uid did) = 200"
      and rest: "run_ops did ops s1 = Some s'"
      by (auto simp: s1_def Let_def split: if_splits)
    from join_drive_cases[of now s uid did] st Cons.prems(1)
    obtain entry where
      s1: "drives s1 did =
             Doc (d\<lparr>d_group := entry # d_group d, d_seats := js_minus (d_seats d) 1\<rparr>)"
      by (auto simp: s1_def)
    from Cons.IH[OF s1 rest] show ?thesis
      by (auto simp: Join joins_def leaves_def)
  next
    case (Leave uid)
    define s1 where "s1 = snd (leave_drive s uid did)"
    from Cons.prems Leave have st: "status_of (leave_drive s uid did) = 200"
      and rest: "run_ops did ops s1 = Some s'"
      by (auto simp: s1_def Let_def split: if_splits)
    let ?g = "splice1 (indexOf (map g_user (d_group d)) uid) (d_group d)"
    from leave_drive_cases[of s uid did] st Cons.prems(1)
    have mem: "uid \<in> set (map g_user (d_group d))"
      and s1: "drives s1 did = Doc (d\<lparr>d_group := ?g, d_seats := js_plus (d_seats d) 1\<rparr>)"
      by (auto simp: s1_def)
    have len: "length ?g = length (d_group d) - 1"
      using indexOf_bounds[OF mem] by (simp add: length_splice1)
    have pos: "0 < length (d_group d)" using mem by auto
    from Cons.IH[OF s1 rest] len pos show ?thesis
      by (auto simp: Leave joins_def leaves_def)
  qed
qed

lemma run_ops_seats:
  "drives s did = Doc d \<Longrightarrow> run_ops did ops s = Some s' \<Longrightarrow>
   \<bar>d_seats d\<bar> + int (length ops) \<le> 9007199254740992 \<Longrightarrow>
   \<exists>d'. drives s' did = Doc d' \<and>
        d_seats d' = d_seats d - int (joins ops) + int (leaves ops)"
proof (induction ops arbitrary: s d)
  case Nil
  then show ?case by (simp add: joins_def leaves_def)
next
  case (Cons op ops)
  from Cons.prems(3) have small: "\<bar>d_seats d\<bar> + 1 \<le> 9007199254740992"
    and more: "\<bar>d_seats d\<bar> + 1 + int (length ops) \<le> 9007199254740992"
    by simp_all
  show ?case
  proof (cases op)
    case (Join uid now)
    define s1 where "s1 = snd (join_drive now s uid did)"
    from Cons.prems Join have st: "status_of (join_drive now s uid did) = 200"
      and rest: "run_ops did ops s1 = Some s'"
      by (auto simp: s1_def Let_def split: if_splits)
    have exact: "js_minus (d_seats d) 1 = d_seats d - 1"
      unfolding js_minus_def using small by (intro to_double_exact) linarith
    from join_drive_cases[of now s uid did] st Cons.prems(1)
    obtain entry where
      s1: "drives s1 did =
             Doc (d\<lparr>d_group := entry # d_group d, d_seats := d_seats d - 1\<rparr>)"
      by (auto simp: s1_def exact)
    have "\<bar>d_seats (d\<lparr>d_group := entry # d_group d, d_seats := d_seats d - 1\<rparr>)\<bar> +
          int (length ops) \<le> 9007199254740992"
      using more by simp
    from Cons.IH[OF s1 rest this] show ?thesis
      by (auto simp: Join joins_def leaves_def)
  next
    case (Leave uid)
    define s1 where "s1 = snd (leave_drive s uid did)"
    from Cons.prems Leave have st: "status_of (leave_drive s uid did) = 200"
      and rest: "run_ops did ops s1 = Some s'"
      by (auto simp: s1_def Let_def split: if_splits)
    have exact: "js_plus (d_seats d) 1 = d_seats d + 1"
      unfolding js_plus_def using small by (intro to_double_exact) linarith
    let ?g = "splice1 (indexOf (map g_user (d_group d)) uid) (d_group d)"
    from leave_drive_cases[of s uid did] st Cons.prems(1)
    have s1: "drives s1 did = Doc (d\<lparr>d_group := ?g, d_seats := d_seats d + 1\<rparr>)"
      by (auto simp: s1_def exact)
    have "\<bar>d_seats (d\<lparr>d_group := ?g, d_seats := d_seats d + 1\<rparr>)\<bar> + int (length ops)
          \<le> 9007199254740992"
      using more by simp
    from Cons.IH[OF s1 rest this] show ?thesis
      by (auto simp: Leave joins_def leaves_def)
  qed
qed

lemma length_ops: "length ops = joins ops + leaves ops"
  by (induction ops) (auto simp: joins_def leaves_def)

section \<open>The invariant of the group list\<close>














section \<open>The date validator\<close>

lemmas parse_defs =
  parseInt_def is_digit_def digit_of_def digits_value_def isWhiteSpace_def
  js_lt_def js_le_def js_gt_def js_eq_def

lemmas validator_defs =
  leavingDate_custom_create_def leavingDate_custom_update_def truthy_array_def
  past_or_invalid_def

text \<open>A month above 12 is rejected on every day, and on 15 June 2025 the date of the day is
  accepted.\<close>

lemma month_13_rejected:
  "leavingDate_custom_create cur ''13/01/2025'' = Inl ''Please Enter a Current or Future Date'' \<and>
   leavingDate_custom_update cur ''13/01/2025'' = Inl ''Please Enter a Current or Future Date''"
  by (simp add: validator_defs parse_defs Let_def)

lemma today_accepted:
  "leavingDate_custom_create june15 ''06/15/2025'' = Inr True \<and>
   leavingDate_custom_update june15 ''06/15/2025'' = Inr True"
  by (simp add: validator_defs parse_defs june15_def Let_def)

text \<open>On the parsed tokens: with \<^verbatim>\<open>getMonth\<close> = m the calendar month is m + 1, which the
  source compares with m. The server's own date passes all six tests, and so does the day
  before it in the same month, because neither \<open>m + 1 < m\<close> nor \<open>m + 1 \<le> m\<close> holds.\<close>

lemma today_passes:
  "0 \<le> m \<Longrightarrow> m \<le> 11 \<Longrightarrow> 1 \<le> d \<Longrightarrow> d \<le> 31 \<Longrightarrow>
   \<not> past_or_invalid [Some (m + 1), Some d, Some y] d m y"
  by (simp add: past_or_invalid_def parse_defs)

lemma yesterday_passes:
  "0 \<le> m \<Longrightarrow> m \<le> 11 \<Longrightarrow> 2 \<le> d \<Longrightarrow> d \<le> 31 \<Longrightarrow>
   \<not> past_or_invalid [Some (m + 1), Some (d - 1), Some y] d m y"
  by (simp add: past_or_invalid_def parse_defs)

text \<open>
  Claim C2: the validator accepts the server's current date, rejects \<^verbatim>\<open>13/01/2025\<close> and
  rejects the day before the current date in the same month and year. The first two parts
  hold (\<open>today_accepted\<close>, \<open>month_13_rejected\<close>). The third does not: on 15 June 2025
  (\<^verbatim>\<open>getMonth\<close> = 5) both validators accept 14 June 2025.
\<close>

theorem yesterday_accepted:
  "leavingDate_custom_create june15 ''06/14/2025'' = Inr True \<and>
   leavingDate_custom_update june15 ''06/14/2025'' = Inr True"
  by (simp add: validator_defs parse_defs june15_def Let_def)

theorem yesterday_accepted_witness:
  "length (map parseInt (split_on CHR ''/'' ''06/14/2025'')) = 3 \<and>
   length ''06/14/2025'' = 10 \<and>
   map parseInt (split_on CHR ''/'' ''06/14/2025'') = [Some 6, Some 14, Some 2025] \<and>
   getMonth june15 = 5 \<and> getDate june15 = 15 \<and> getFullYear june15 = 2025 \<and>
   leavingDate_custom_create june15 ''06/14/2025'' = Inr True \<and>
   leavingDate_custom_update june15 ''06/14/2025'' = Inr True"
  using yesterday_accepted by (simp add: parse_defs june15_def Let_def)

text \<open>
  Claim C10: a string of ten characters that splits on the slash into exactly three tokens,
  none of which \<^verbatim>\<open>parseInt\<close> can read, is accepted by the validator of create and by the
  validator of update, whatever the date of the server; \<^verbatim>\<open>aa/bb/cccc\<close> is such a string.
\<close>

theorem unparsable_date_accepted:
  assumes "length leavingDate = 10"
    and "length (split_on CHR ''/'' leavingDate) = 3"
    and "\<forall>t \<in> set (split_on CHR ''/'' leavingDate). parseInt t = None"
  shows "leavingDate_custom_create cur leavingDate = Inr True \<and>
         leavingDate_custom_update cur leavingDate = Inr True"
proof -
  from assms(2) obtain a b c where toks: "split_on CHR ''/'' leavingDate = [a, b, c]"
    by (auto simp: length_Suc_conv numeral_3_eq_3)
  with assms(3) have "map parseInt (split_on CHR ''/'' leavingDate) = [None, None, None]"
    by simp
  with assms(1) show ?thesis
    by (simp add: validator_defs js_lt_def js_le_def js_gt_def js_eq_def Let_def)
qed

theorem unparsable_date_accepted_witness:
  "length ''aa/bb/cccc'' = 10 \<and>
   split_on CHR ''/'' ''aa/bb/cccc'' = [''aa'', ''bb'', ''cccc''] \<and>
   map parseInt [''aa'', ''bb'', ''cccc''] = [None, None, None] \<and>
   leavingDate_custom_create june15 ''aa/bb/cccc'' = Inr True \<and>
   leavingDate_custom_update june15 ''aa/bb/cccc'' = Inr True"
proof -
  have toks: "split_on CHR ''/'' ''aa/bb/cccc'' = [''aa'', ''bb'', ''cccc'']"
    by simp
  have nan: "map parseInt [''aa'', ''bb'', ''cccc''] = [None, None, None]"
    by (simp add: parse_defs Let_def)
  have h3: "\<forall>t \<in> set (split_on CHR ''/'' ''aa/bb/cccc''). parseInt t = None"
    using nan by (simp add: toks)
  have "length ''aa/bb/cccc'' = 10" by simp
  moreover have "length (split_on CHR ''/'' ''aa/bb/cccc'') = 3" by (simp add: toks)
  ultimately show ?thesis
    using unparsable_date_accepted[of "''aa/bb/cccc''" june15] h3 toks nan by simp
qed

section \<open>Creating and updating a drive\<close>

lemma new_trip_valid:
  "validate_create june15 new_trip = [] \<and> validate_update june15 new_trip = []"
  by (simp add: validate_create_def validate_update_def not_isEmpty_def custom_def new_trip_def
      validator_defs parse_defs june15_def Let_def)

lemma new_trip_seats: "body_seats new_trip = 3"
  by (simp add: body_seats_def new_trip_def to_double_exact)

lemma new_trip_date: "summer_dates (b_leavingDate new_trip) = Some 1754697600000"
  by (simp add: new_trip_def summer_dates_def)

lemma trip_valid: "validateSync trip"
  by (simp add: validateSync_def trip_def first_comment_def second_comment_def)

text \<open>
  Claim C9: when the caller has no profile, create with a body that passes validation is
  answered 500 with the text \<^verbatim>\<open>Server Error\<close> and stores nothing, where join answers the
  same caller 400 with \<^verbatim>\<open>You need a profile to join drives\<close>.
\<close>

theorem create_without_profile_is_500:
  assumes "validate_create cur b = []" and "profiles s uid = None"
  shows "create_drive castDate cur now new_id s uid b = ((500, Send ''Server Error''), s) \<and>
         (\<forall>did d u. drives s did = Doc d \<and> users s uid = Some u \<and>
              uid \<notin> set (map g_user (d_group d)) \<and> 1 \<le> d_seats d \<longrightarrow>
              join_drive now s uid did = ((400, Msg ''You need a profile to join drives''), s))"
  using assms
  unfolding create_drive_def create_try_def join_drive_def join_try_def handler_defs
    joined_iff Let_def
  by (auto split: option.splits)

theorem create_without_profile_is_500_witness:
  "validate_create june15 new_trip = [] \<and> profiles club ''u2'' = None \<and>
   create_drive summer_dates june15 2000 ''d3'' club ''u2'' new_trip =
     ((500, Send ''Server Error''), club) \<and>
   drives club ''d1'' = Doc trip \<and> users club ''u2'' = Some bob \<and>
   ''u2'' \<notin> set (map g_user (d_group trip)) \<and> 1 \<le> d_seats trip \<and>
   join_drive 2000 club ''u2'' ''d1'' = ((400, Msg ''You need a profile to join drives''), club)"
proof -
  have v: "validate_create june15 new_trip = []" by (simp add: new_trip_valid)
  have p: "profiles club ''u2'' = None" by (simp add: club_def)
  have d: "drives club ''d1'' = Doc trip" by (simp add: club_def)
  have u: "users club ''u2'' = Some bob" by (simp add: club_def)
  have g: "''u2'' \<notin> set (map g_user (d_group trip))" by (simp add: trip_def alice_entry_def)
  have n: "1 \<le> d_seats trip" by (simp add: trip_def)
  from create_without_profile_is_500[OF v p, of summer_dates 2000 "''d3''"] v p d u g n
  show ?thesis by blast
qed

text \<open>
  Claim C8: an update answered 200 overwrites only fields among owner, avatar,
  leavingDate, leavingTime, hike, seats and description, and leaves the group list and the
  comments list as they were. The stored drive is the drive before with the owner, the
  avatar, the leaving date (the body's string cast to a date), the leaving time, the seats
  (the body's number) and the description overwritten from the caller and the body; the body's \<^verbatim>\<open>hike\<close> has
  no path in the schema, so the destination, like the name, the group, the comments and
  the creation date, is that of the drive before.
\<close>

theorem update_keeps_group_and_comments:
  assumes "drives s did = Doc d"
    and "status_of (update_drive castDate cur s uid did b) = 200"
  shows "\<exists>u t d'. users s uid = Some u \<and> d_user d = uid \<and>
           castDate (b_leavingDate b) = Some t \<and>
           d' = d\<lparr>d_user := uid, d_avatar := u_avatar u, d_leavingDate := Some t,
                  d_leavingTime := b_leavingTime b, d_seats := body_seats b,
                  d_description := b_description b\<rparr> \<and>
           update_drive castDate cur s uid did b =
             ((200, DriveJson d'), s\<lparr>drives := (drives s)(did := Doc d')\<rparr>) \<and>
           d_group d' = d_group d \<and> d_comments d' = d_comments d \<and>
           d_resort d' = d_resort d \<and> d_name d' = d_name d \<and> d_date d' = d_date d"
  using assms
  unfolding update_drive_def update_try_def handler_defs Let_def
  by (auto split: option.splits if_splits)

theorem update_keeps_group_and_comments_witness:
  "drives club ''d1'' = Doc trip \<and>
   status_of (update_drive summer_dates june15 club ''u1'' ''d1'' new_trip) = 200 \<and>
   (\<exists>d'. drives (snd (update_drive summer_dates june15 club ''u1'' ''d1'' new_trip)) ''d1'' =
        Doc d' \<and>
      d_seats d' = 3 \<and> d_leavingDate d' = Some 1754697600000 \<and>
      d_resort d' = Some ''Mailbox Peak'' \<and>
      d_group d' = [alice_entry] \<and> d_comments d' = [second_comment, first_comment])"
proof -
  have d: "drives club ''d1'' = Doc trip" by (simp add: club_def)
  have st: "status_of (update_drive summer_dates june15 club ''u1'' ''d1'' new_trip) = 200"
    by (simp add: update_drive_def update_try_def handler_defs new_trip_valid club_def trip_def
        new_trip_seats new_trip_date Let_def)
  from update_keeps_group_and_comments[OF d st] d st new_trip_date show ?thesis
    by (auto simp: trip_def new_trip_seats)
qed

section \<open>Joining and leaving\<close>

lemma weekend_runs_d1: "run_ops ''d1'' weekend club \<noteq> None"
  by (simp add: weekend_def join_drive_def join_try_def leave_drive_def leave_try_def
      handler_defs club_def trip_def alice_entry_def splice1_def validateSync_def
      first_comment_def second_comment_def js_minus_def js_plus_def to_double_exact Let_def)

text \<open>
  Claim C6, as the claim states it, fails: the seat count is a double. On a drive with
  \<open>2 ^ 53\<close> = 9007199254740992 seats a leave (no join, N = 0 and M = 1, both at most S) is
  answered 200 and the seats stay \<open>2 ^ 53\<close>, where S - N + M is \<open>2 ^ 53 + 1\<close>.
\<close>

theorem seats_rounded_at_2_53:
  "drives bus_club ''d1'' = Doc (trip\<lparr>d_seats := 9007199254740992\<rparr>) \<and>
   joins [Leave ''u1''] = 0 \<and> leaves [Leave ''u1''] = 1 \<and>
   run_ops ''d1'' [Leave ''u1''] bus_club =
     Some (bus_club\<lparr>drives := (drives bus_club)(''d1'' :=
             Doc (trip\<lparr>d_group := [], d_seats := 9007199254740992\<rparr>))\<rparr>) \<and>
   (9007199254740992 :: int) \<noteq> 9007199254740992 - 0 + 1"
  by (simp add: joins_def leaves_def leave_drive_def leave_try_def handler_defs bus_club_def
      club_def trip_def alice_entry_def splice1_def validateSync_def first_comment_def
      second_comment_def js_plus_def to_double_53_1 Let_def)

text \<open>
  Claim C6, amended: after a run of joins and leaves on one stored drive that are all
  answered 200, N of them joins and M of them leaves, the group has N more and M fewer
  entries than before, that is 1 + N - M entries when it held the driver alone; and the
  seats are those before the run minus N plus M whenever the seats before the run, in
  absolute value, plus N plus M are at most \<open>2 ^ 53\<close>, the range in which a double counts
  exactly. No bound of N and M by the seats is needed.
\<close>

theorem seats_and_group_after_joins_and_leaves:
  "drives s did = Doc d \<and> run_ops did ops s = Some s' \<longrightarrow>
     (\<exists>d'. drives s' did = Doc d' \<and>
        int (length (d_group d')) =
          int (length (d_group d)) + int (joins ops) - int (leaves ops) \<and>
        (length (d_group d) = 1 \<longrightarrow>
           int (length (d_group d')) = 1 + int (joins ops) - int (leaves ops)) \<and>
        (\<bar>d_seats d\<bar> + int (joins ops) + int (leaves ops) \<le> 9007199254740992 \<longrightarrow>
           d_seats d' = d_seats d - int (joins ops) + int (leaves ops)))"
proof
  assume a: "drives s did = Doc d \<and> run_ops did ops s = Some s'"
  from run_ops_group[of s did d ops s'] a obtain d' where
    d': "drives s' did = Doc d'"
    and len: "int (length (d_group d')) =
          int (length (d_group d)) + int (joins ops) - int (leaves ops)"
    by auto
  have "d_seats d' = d_seats d - int (joins ops) + int (leaves ops)"
    if "\<bar>d_seats d\<bar> + int (joins ops) + int (leaves ops) \<le> 9007199254740992"
  proof -
    from that have "\<bar>d_seats d\<bar> + int (length ops) \<le> 9007199254740992"
      by (simp add: length_ops)
    from run_ops_seats[of s did d ops s', OF _ _ this] a d' show ?thesis by auto
  qed
  with d' len show "\<exists>d'. drives s' did = Doc d' \<and>
        int (length (d_group d')) =
          int (length (d_group d)) + int (joins ops) - int (leaves ops) \<and>
        (length (d_group d) = 1 \<longrightarrow>
           int (length (d_group d')) = 1 + int (joins ops) - int (leaves ops)) \<and>
        (\<bar>d_seats d\<bar> + int (joins ops) + int (leaves ops) \<le> 9007199254740992 \<longrightarrow>
           d_seats d' = d_seats d - int (joins ops) + int (leaves ops))"
    by auto
qed

theorem seats_and_group_after_joins_and_leaves_witness:
  "drives club ''d1'' = Doc trip \<and> d_seats trip = 2 \<and> length (d_group trip) = 1 \<and>
   joins weekend = 2 \<and> leaves weekend = 1 \<and>
   \<bar>d_seats trip\<bar> + int (joins weekend) + int (leaves weekend) \<le> 9007199254740992 \<and>
   (\<exists>s'. run_ops ''d1'' weekend club = Some s' \<and>
      (\<exists>d'. drives s' ''d1'' = Doc d' \<and> d_seats d' = 1 \<and> length (d_group d') = 2))"
proof -
  obtain s' where r1: "run_ops ''d1'' weekend club = Some s'"
    using weekend_runs_d1 by auto
  have d: "drives club ''d1'' = Doc trip" by (simp add: club_def)
  have t: "d_seats trip = 2" "length (d_group trip) = 1" by (simp_all add: trip_def)
  have n: "joins weekend = 2" and m: "leaves weekend = 1"
    by (simp_all add: joins_def leaves_def weekend_def)
  have b: "\<bar>d_seats trip\<bar> + int (joins weekend) + int (leaves weekend) \<le> 9007199254740992"
    by (simp add: t n m)
  note T = seats_and_group_after_joins_and_leaves[of club "''d1''" trip weekend s']
  from T d r1 t n m b
  have A: "\<exists>d'. drives s' ''d1'' = Doc d' \<and> d_seats d' = 1 \<and> length (d_group d') = 2"
    by auto
  from A r1 d t n m b show ?thesis by auto
qed




section \<open>Refused requests\<close>

lemma blank_description:
  "validate_update june15 (new_trip\<lparr>b_description := []\<rparr>) =
     [(''description'', ''Description is required'')]"
  by (simp add: validate_update_def not_isEmpty_def custom_def new_trip_def
      validator_defs parse_defs june15_def Let_def)

text \<open>
  Claim C5, as the claim states it, fails: the handler of update answers a body that fails
  validation before it looks at the owner. Carol does not own Alice's drive, and her update
  with an empty description is answered 400 with the validation errors, not 401.
\<close>

theorem non_owner_update_400:
  "drives club ''d1'' = Doc trip \<and> d_user trip \<noteq> ''u3'' \<and>
   update_drive summer_dates june15 club ''u3'' ''d1'' (new_trip\<lparr>b_description := []\<rparr>) =
     ((400, Errors [(''description'', ''Description is required'')]), club) \<and>
   status_of (update_drive summer_dates june15 club ''u3'' ''d1''
      (new_trip\<lparr>b_description := []\<rparr>)) \<noteq> 401"
  by (simp add: update_drive_def blank_description club_def trip_def status_of_def)

text \<open>
  Claim C5, amended: on a drive with no seat left, a join by a caller who has an account
  and is not in the group is answered 400 \<^verbatim>\<open>Drive full\<close>; for a caller who is not the
  owner, delete is answered 401 and update is answered 401 when the body passes validation
  and 400 with the validation errors when it does not. In each of these cases the store is
  the store before the request.
\<close>

theorem refused_mutations_keep_store:
  "(drives s did = Doc d \<and> d_seats d = 0 \<and> uid \<notin> set (map g_user (d_group d)) \<and>
      users s uid \<noteq> None \<longrightarrow>
      join_drive now s uid did = ((400, Msg ''Drive full''), s)) \<and>
   (drives s did = Doc d \<and> d_user d \<noteq> uid \<longrightarrow>
      delete_drive s uid did = ((401, Msg ''User not authorized''), s) \<and>
      snd (update_drive castDate cur s uid did b) = s \<and>
      (validate_update cur b = [] \<longrightarrow>
         update_drive castDate cur s uid did b = ((401, Msg ''User not Authorized''), s)) \<and>
      (validate_update cur b \<noteq> [] \<longrightarrow>
         update_drive castDate cur s uid did b =
           ((400, Errors (validate_update cur b)), s)))"
  unfolding join_drive_def join_try_def delete_drive_def delete_try_def update_drive_def
    update_try_def handler_defs joined_iff Let_def
  by (auto split: option.splits)

theorem refused_mutations_keep_store_witness:
  "drives full_club ''d1'' = Doc (trip\<lparr>d_seats := 0\<rparr>) \<and>
   ''u3'' \<notin> set (map g_user (d_group (trip\<lparr>d_seats := 0\<rparr>))) \<and>
   users full_club ''u3'' \<noteq> None \<and> d_user (trip\<lparr>d_seats := 0\<rparr>) \<noteq> ''u3'' \<and>
   validate_update june15 new_trip = [] \<and>
   join_drive 2000 full_club ''u3'' ''d1'' = ((400, Msg ''Drive full''), full_club) \<and>
   delete_drive full_club ''u3'' ''d1'' = ((401, Msg ''User not authorized''), full_club) \<and>
   update_drive summer_dates june15 full_club ''u3'' ''d1'' new_trip =
     ((401, Msg ''User not Authorized''), full_club)"
proof -
  note T = refused_mutations_keep_store[of full_club "''d1''" "trip\<lparr>d_seats := 0\<rparr>" "''u3''"
      2000 summer_dates june15 new_trip]
  have d: "drives full_club ''d1'' = Doc (trip\<lparr>d_seats := 0\<rparr>)"
    by (simp add: full_club_def)
  have z: "d_seats (trip\<lparr>d_seats := 0\<rparr>) = 0" by simp
  have g: "''u3'' \<notin> set (map g_user (d_group (trip\<lparr>d_seats := 0\<rparr>)))"
    by (simp add: trip_def alice_entry_def)
  have u: "users full_club ''u3'' \<noteq> None" by (simp add: full_club_def club_def)
  have o: "d_user (trip\<lparr>d_seats := 0\<rparr>) \<noteq> ''u3''" by (simp add: trip_def)
  have v: "validate_update june15 new_trip = []" by (simp add: new_trip_valid)
  from T d z g u o v show ?thesis by blast
qed

text \<open>
  Claim C4, as the claim states it, fails: update answers an id that is not an ObjectId
  with status 400, not 404.
\<close>

theorem malformed_id_update_400:
  "drives club ''not-an-id'' = Malformed \<and> validate_update june15 new_trip = [] \<and>
   update_drive summer_dates june15 club ''u1'' ''not-an-id'' new_trip =
     ((400, Msg ''Drive not found''), club) \<and>
   status_of (update_drive summer_dates june15 club ''u1'' ''not-an-id'' new_trip) \<noteq> 404"
  by (simp add: update_drive_def update_try_def handler_defs new_trip_valid club_def)

text \<open>
  Claim C4, amended: an id that names no document is answered 404 \<^verbatim>\<open>Drive not found\<close> by
  get, delete, join and leave, and by update when the body passes validation. An id that
  is not an ObjectId is answered 404 by get and remove-comment and by add-comment when the
  text is not empty, and 400 with the same message by delete, join and leave and by update
  when the body passes validation. The store is the store before the request.
\<close>

theorem unknown_drive_id_answers:
  "(drives s did = Null \<longrightarrow>
      get_drive s did = ((404, Msg ''Drive not found''), s) \<and>
      delete_drive s uid did = ((404, Msg ''Drive not found''), s) \<and>
      join_drive now s uid did = ((404, Msg ''Drive not found''), s) \<and>
      leave_drive s uid did = ((404, Msg ''Drive not found''), s) \<and>
      (validate_update cur b = [] \<longrightarrow>
         update_drive castDate cur s uid did b = ((404, Msg ''Drive not found''), s))) \<and>
   (drives s did = Malformed \<longrightarrow>
      get_drive s did = ((404, Msg ''Drive not found''), s) \<and>
      remove_comment s uid did comment_id = ((404, Msg ''Drive not found''), s) \<and>
      (text \<noteq> [] \<longrightarrow> add_comment Post s uid did text = ((404, Msg ''Drive not found''), s)) \<and>
      delete_drive s uid did = ((400, Msg ''Drive not found''), s) \<and>
      join_drive now s uid did = ((400, Msg ''Drive not found''), s) \<and>
      leave_drive s uid did = ((400, Msg ''Drive not found''), s) \<and>
      (validate_update cur b = [] \<longrightarrow>
         update_drive castDate cur s uid did b = ((400, Msg ''Drive not found''), s)))"
  unfolding get_drive_def delete_drive_def delete_try_def join_drive_def join_try_def
    leave_drive_def leave_try_def update_drive_def update_try_def remove_comment_def
    remove_comment_try_def add_comment_def add_comment_try_def not_isEmpty_def handler_defs
    Let_def
  by simp

theorem unknown_drive_id_answers_witness:
  "drives club ''d2'' = Null \<and> drives club ''not-an-id'' = Malformed \<and>
   validate_update june15 new_trip = [] \<and>
   get_drive club ''d2'' = ((404, Msg ''Drive not found''), club) \<and>
   update_drive summer_dates june15 club ''u1'' ''d2'' new_trip =
     ((404, Msg ''Drive not found''), club) \<and>
   leave_drive club ''u1'' ''d2'' = ((404, Msg ''Drive not found''), club) \<and>
   get_drive club ''not-an-id'' = ((404, Msg ''Drive not found''), club) \<and>
   add_comment None club ''u1'' ''not-an-id'' ''Hello'' = ((404, Msg ''Drive not found''), club) \<and>
   delete_drive club ''u1'' ''not-an-id'' = ((400, Msg ''Drive not found''), club) \<and>
   join_drive 2000 club ''u1'' ''not-an-id'' = ((400, Msg ''Drive not found''), club)"
proof -
  note T1 = unknown_drive_id_answers[of club "''d2''" "''u1''" 2000 june15 new_trip
      summer_dates "''c1''" "''Hello''" None]
  note T2 = unknown_drive_id_answers[of club "''not-an-id''" "''u1''" 2000 june15 new_trip
      summer_dates "''c1''" "''Hello''" None]
  have n: "drives club ''d2'' = Null" by (simp add: club_def)
  have m: "drives club ''not-an-id'' = Malformed" by (simp add: club_def)
  have v: "validate_update june15 new_trip = []" by (simp add: new_trip_valid)
  have t: "''Hello'' \<noteq> []" by simp
  from T1 T2 n m v t show ?thesis by blast
qed

text \<open>The two comment routes read \<^verbatim>\<open>drive.comments\<close> with no test for \<^verbatim>\<open>null\<close>, as the other
  routes have it: an id that names no document is answered 500 there.\<close>

lemma comment_on_missing_drive:
  "drives s did = Null \<Longrightarrow>
   remove_comment s uid did comment_id = ((500, Send ''Server Error''), s) \<and>
   (text \<noteq> [] \<longrightarrow> add_comment Post s uid did text = ((500, Send ''Server Error''), s))"
  unfolding remove_comment_def remove_comment_try_def add_comment_def add_comment_try_def
    not_isEmpty_def handler_defs Let_def
  by (auto split: option.splits)

section \<open>Comments\<close>

text \<open>
  Claim C1: for a caller with an account, a text that is not empty and a drive of the
  collection (a document with its required paths), add-comment is answered 200 with the
  new list of comments: the comment of the text, the caller's id, the caller's name, the
  caller's avatar and the time of the request is put in front of the comments of the
  drive, and the drive is stored so. \<^verbatim>\<open>Post\<close> is the constructor modelled from the spec.
\<close>

theorem add_comment_prepends:
  assumes "text \<noteq> []" and "drives s did = Doc d" and "validateSync d"
    and "users s uid = Some u"
  shows "add_comment (Some (spec_Post new_id now)) s uid did text =
     ((200, CommentsJson
         (\<lparr>c_id = new_id, c_user = uid, c_text = text, c_name = u_name u,
           c_avatar = u_avatar u, c_date = now\<rparr> # d_comments d)),
      s\<lparr>drives := (drives s)(did :=
           Doc (d\<lparr>d_comments :=
                  \<lparr>c_id = new_id, c_user = uid, c_text = text, c_name = u_name u,
                    c_avatar = u_avatar u, c_date = now\<rparr> # d_comments d\<rparr>))\<rparr>)"
  using assms
  unfolding add_comment_def add_comment_try_def not_isEmpty_def handler_defs spec_Post_def
    validateSync_def Let_def
  by simp

theorem add_comment_prepends_witness:
  "''See you there'' \<noteq> [] \<and> drives club ''d1'' = Doc trip \<and> validateSync trip \<and>
   users club ''u1'' = Some alice \<and>
   add_comment (Some (spec_Post ''c3'' 2000)) club ''u1'' ''d1'' ''See you there'' =
     ((200, CommentsJson
         [\<lparr>c_id = ''c3'', c_user = ''u1'', c_text = ''See you there'', c_name = ''Alice'',
           c_avatar = ''//gravatar/a'', c_date = 2000\<rparr>, second_comment, first_comment]),
      club\<lparr>drives := (drives club)(''d1'' :=
           Doc (trip\<lparr>d_comments :=
                  [\<lparr>c_id = ''c3'', c_user = ''u1'', c_text = ''See you there'',
                     c_name = ''Alice'', c_avatar = ''//gravatar/a'', c_date = 2000\<rparr>,
                   second_comment, first_comment]\<rparr>))\<rparr>)"
proof -
  have t: "''See you there'' \<noteq> []" by simp
  have d: "drives club ''d1'' = Doc trip" by (simp add: club_def)
  have u: "users club ''u1'' = Some alice" by (simp add: club_def)
  have c: "d_comments trip = [second_comment, first_comment]" by (simp add: trip_def)
  from add_comment_prepends[OF t d trip_valid u, of "''c3''" 2000] t d u c trip_valid
  show ?thesis by (simp add: alice_def)
qed

text \<open>Remove-comment: a caller who is not the author of the comment named by the id is
  answered 401, and for its author the list of a drive of the collection gets one entry
  shorter; the entry removed is the first one of the caller.\<close>

lemma remove_comment_non_author:
  "drives s did = Doc d \<Longrightarrow> find (\<lambda>c. c_id c = comment_id) (d_comments d) = Some c \<Longrightarrow>
   c_user c \<noteq> uid \<Longrightarrow>
   remove_comment s uid did comment_id = ((401, Msg ''User not authorized''), s)"
  unfolding remove_comment_def remove_comment_try_def handler_defs Let_def
  by simp

lemma find_Some_mem: "find P xs = Some x \<Longrightarrow> x \<in> set xs"
  by (induction xs) (auto split: if_splits)

lemma list_all_splice1: "list_all P xs \<Longrightarrow> list_all P (splice1 i xs)"
  using set_splice1[of i xs] by (auto simp: list_all_iff)

lemma remove_comment_author:
  assumes "drives s did = Doc d" and "validateSync d"
    and "find (\<lambda>c. c_id c = comment_id) (d_comments d) = Some c"
    and "c_user c = uid"
  shows "\<exists>cs. remove_comment s uid did comment_id =
            ((200, CommentsJson cs),
             s\<lparr>drives := (drives s)(did := Doc (d\<lparr>d_comments := cs\<rparr>))\<rparr>) \<and>
          cs = splice1 (indexOf (map c_user (d_comments d)) uid) (d_comments d) \<and>
          length cs = length (d_comments d) - 1"
proof -
  have "uid \<in> set (map c_user (d_comments d))"
    using find_Some_mem[OF assms(3)] assms(4) by auto
  from indexOf_bounds[OF this]
  have "length (splice1 (indexOf (map c_user (d_comments d)) uid) (d_comments d)) =
        length (d_comments d) - 1"
    by (simp add: length_splice1)
  moreover have "validateSync
      (d\<lparr>d_comments := splice1 (indexOf (map c_user (d_comments d)) uid) (d_comments d)\<rparr>)"
    using assms(2) by (simp add: validateSync_def list_all_splice1)
  ultimately show ?thesis
    using assms
    unfolding remove_comment_def remove_comment_try_def handler_defs Let_def
    by simp
qed

text \<open>
  Claim C3: remove-comment by a caller who is not the author is answered 401, and by the
  author it removes exactly the comment named by the comment id. The first part holds
  (\<open>remove_comment_non_author\<close>), and so does the length (\<open>remove_comment_author\<close>). The
  comment removed is another one when the author has an earlier entry in the list: Alice
  asks to remove her comment \<^verbatim>\<open>c1\<close>; the handler removes \<^verbatim>\<open>c2\<close> and \<^verbatim>\<open>c1\<close> stays.
\<close>

theorem remove_comment_removes_other:
  "drives club ''d1'' = Doc trip \<and> d_comments trip = [second_comment, first_comment] \<and>
   c_id first_comment = ''c1'' \<and> c_user first_comment = ''u1'' \<and>
   c_id second_comment = ''c2'' \<and> c_user second_comment = ''u1'' \<and>
   remove_comment club ''u1'' ''d1'' ''c1'' =
     ((200, CommentsJson [first_comment]),
      club\<lparr>drives := (drives club)(''d1'' := Doc (trip\<lparr>d_comments := [first_comment]\<rparr>))\<rparr>)"
  by (simp add: remove_comment_def remove_comment_try_def handler_defs club_def trip_def
      first_comment_def second_comment_def splice1_def validateSync_def Let_def)

end
